theory Spec2Isabelle
  imports Main "HOL-Library.Word"
begin

section \<open>Python string primitives used by the storage service\<close>

text \<open>
  Python's \<open>str.split(sep)\<close> for a one-character separator: the parts between the
  occurrences of the separator, never an empty list.
\<close>

fun split_py :: "char \<Rightarrow> string \<Rightarrow> string list" where
  "split_py c [] = [[]]"
| "split_py c (x # xs) =
     (if x = c then [] # split_py c xs
      else (case split_py c xs of p # ps \<Rightarrow> (x # p) # ps | [] \<Rightarrow> [[x]]))"

text \<open>Python's \<open>sep.join(parts)\<close>.\<close>

fun join_py :: "string \<Rightarrow> string list \<Rightarrow> string" where
  "join_py sep [] = []"
| "join_py sep [x] = x"
| "join_py sep (x # y # ys) = x @ sep @ join_py sep (y # ys)"

text \<open>
  Python's \<open>s.rsplit(sep, 1)\<close> on a string that contains the separator: the scan runs
  from the right end and cuts at the last occurrence.
\<close>

definition rsplit1 :: "char \<Rightarrow> string \<Rightarrow> string \<times> string" where
  "rsplit1 c s =
     (let r = rev s
      in (rev (tl (dropWhile (\<lambda>x. x \<noteq> c) r)), rev (takeWhile (\<lambda>x. x \<noteq> c) r)))"

text \<open>Digits, \<open>str(n)\<close> for a non-negative integer, and the format \<open>{n:02d}\<close>.\<close>

definition digit_char :: "nat \<Rightarrow> char" where
  "digit_char d = ''0123456789abcdef'' ! d"

function str_nat :: "nat \<Rightarrow> string" where
  "str_nat n = (if n < 10 then [digit_char n] else str_nat (n div 10) @ [digit_char (n mod 10)])"
  by pat_completeness auto
termination
  by (relation "measure (\<lambda>n. n)") auto

declare str_nat.simps [simp del]

definition str_int :: "int \<Rightarrow> string" where
  "str_int i = (if i < 0 then CHR ''-'' # str_nat (nat (- i)) else str_nat (nat i))"

definition fmt_02d :: "nat \<Rightarrow> string" where
  "fmt_02d n = (let s = str_nat n in replicate (2 - length s) CHR ''0'' @ s)"

text \<open>
  \<open>str(uuid)\<close>: the 128-bit value printed as 32 lower-case hexadecimal digits
  (\<open>'%032x' % self.int\<close>), grouped 8-4-4-4-12.
\<close>

fun hex_pad :: "nat \<Rightarrow> nat \<Rightarrow> string" where
  "hex_pad 0 n = []"
| "hex_pad (Suc k) n = hex_pad k (n div 16) @ [digit_char (n mod 16)]"

type_synonym uuid = "128 word"

definition str_uuid :: "uuid \<Rightarrow> string" where
  "str_uuid u =
     (let h = hex_pad 32 (unat u)
      in take 8 h @ ''-'' @ take 4 (drop 8 h) @ ''-'' @ take 4 (drop 12 h) @ ''-''
         @ take 4 (drop 16 h) @ ''-'' @ drop 20 h)"

section \<open>Key derivation (S3Service.generate_s3_key, generate_thumbnail_key)\<close>

text \<open>
  The two reads of the environment in \<open>generate_s3_key\<close>, \<open>datetime.utcnow()\<close> and
  \<open>uuid.uuid4()\<close>, are arguments of the model.
\<close>

record datetime =
  year :: nat
  month :: nat

definition generate_s3_key :: "datetime \<Rightarrow> uuid \<Rightarrow> string \<Rightarrow> string \<Rightarrow> string" where
  "generate_s3_key now uuid4 filename user_id =
     (let file_extension =
            (if CHR ''.'' \<in> set filename then last (split_py CHR ''.'' filename) else []);
          unique_filename =
            (if file_extension \<noteq> [] then str_uuid uuid4 @ ''.'' @ file_extension
             else str_uuid uuid4)
      in ''uploads/'' @ str_nat (year now) @ ''/'' @ fmt_02d (month now) @ ''/''
         @ user_id @ ''/'' @ unique_filename)"

definition generate_thumbnail_key :: "string \<Rightarrow> string" where
  "generate_thumbnail_key s3_key =
     (let path_parts = split_py CHR ''/'' s3_key;
          filename = last path_parts;
          (name, ext) =
            (if CHR ''.'' \<in> set filename then rsplit1 CHR ''.'' filename else (filename, []));
          thumbnail_filename =
            (if ext \<noteq> [] then name @ ''_thumb.'' @ ext else name @ ''_thumb'')
      in ''thumbnails/'' @ join_py ''/'' (butlast (tl path_parts)) @ ''/'' @ thumbnail_filename)"

section \<open>The storage service (app/services/s3\_service.py)\<close>

text \<open>
  Exceptions raised by collaborators carry their message (\<open>str(e)\<close>). The messages the
  source itself builds are Korean literals; they are rendered in English here.
\<close>

datatype exn = JWTError string | ClientError string | Exception string

fun str_exn :: "exn \<Rightarrow> string" where
  "str_exn (JWTError m) = m"
| "str_exn (ClientError m) = m"
| "str_exn (Exception m) = m"

text \<open>
  The provider client. A call of one of its methods is recorded in the trace that every
  operation of the service returns beside its result: the trace lists the requests made to
  the provider, in order.
\<close>

datatype condition = Exact string string | ContentLengthRange int int

record presigned_post_args =
  Bucket :: string
  Key :: string
  Fields :: "(string \<times> string) list"
  Conditions :: "condition list"
  ExpiresIn :: int

record presigned_post =
  post_url :: string
  post_fields :: "(string \<times> string) list"

datatype provider_call =
  PresignedPost presigned_post_args
| PresignedUrl string string string int

record s3_client =
  generate_presigned_post :: "presigned_post_args \<Rightarrow> exn + presigned_post"
  generate_presigned_url :: "string \<Rightarrow> string \<Rightarrow> string \<Rightarrow> int \<Rightarrow> exn + string"

record s3_service =
  s3_client :: "s3_client option"
  bucket_name :: string

text \<open>
  \<open>S3Service.__init__\<close>: the client is kept when \<open>boto3.client\<close> returns one, and is
  \<open>None\<close> when it raises.
\<close>

definition S3Service_init :: "exn + s3_client \<Rightarrow> string \<Rightarrow> s3_service" where
  "S3Service_init boto3_client S3_BUCKET_NAME =
     (case boto3_client of
        Inr c \<Rightarrow> \<lparr>s3_client = Some c, bucket_name = S3_BUCKET_NAME\<rparr>
      | Inl e \<Rightarrow> \<lparr>s3_client = None, bucket_name = S3_BUCKET_NAME\<rparr>)"

record upload_info =
  info_upload_url :: string
  info_s3_key :: string
  info_expires_in :: int
  info_fields :: "(string \<times> string) list"
  is_mock :: bool

definition generate_presigned_upload_url ::
  "s3_service \<Rightarrow> datetime \<Rightarrow> uuid \<Rightarrow> string \<Rightarrow> string \<Rightarrow> string \<Rightarrow> int
   \<Rightarrow> (exn + upload_info) \<times> provider_call list" where
  "generate_presigned_upload_url svc now uuid4 filename content_type user_id expires_in =
     (let s3_key = generate_s3_key now uuid4 filename user_id
      in case s3_client svc of
           None \<Rightarrow>
             (Inr \<lparr>info_upload_url =
                     ''https://'' @ bucket_name svc @ ''.s3.amazonaws.com/'' @ s3_key @ ''?mock=true'',
                   info_s3_key = s3_key,
                   info_expires_in = expires_in,
                   info_fields = [],
                   is_mock = True\<rparr>, [])
         | Some client \<Rightarrow>
             (let args = \<lparr>Bucket = bucket_name svc,
                          Key = s3_key,
                          Fields = [(''Content-Type'', content_type),
                                    (''x-amz-meta-user-id'', user_id),
                                    (''x-amz-meta-original-filename'', filename)],
                          Conditions = [Exact ''Content-Type'' content_type,
                                        Exact ''x-amz-meta-user-id'' user_id,
                                        Exact ''x-amz-meta-original-filename'' filename,
                                        ContentLengthRange 1 (100 * 1024 * 1024)],
                          ExpiresIn = expires_in\<rparr>
              in ((case generate_presigned_post client args of
                     Inl (ClientError m) \<Rightarrow>
                       Inl (Exception (''upload URL generation failed: '' @ m))
                   | Inl e \<Rightarrow>
                       Inl (Exception (''error while generating upload URL: '' @ str_exn e))
                   | Inr response \<Rightarrow>
                       Inr \<lparr>info_upload_url = post_url response,
                            info_s3_key = s3_key,
                            info_expires_in = expires_in,
                            info_fields = post_fields response,
                            is_mock = False\<rparr>),
                  [PresignedPost args])))"

definition generate_presigned_download_url ::
  "s3_service \<Rightarrow> string \<Rightarrow> int \<Rightarrow> (exn + string) \<times> provider_call list" where
  "generate_presigned_download_url svc s3_key expires_in =
     (case s3_client svc of
        None \<Rightarrow>
          (Inr (''https://'' @ bucket_name svc @ ''.s3.amazonaws.com/'' @ s3_key @ ''?mock=true''), [])
      | Some client \<Rightarrow>
          ((case generate_presigned_url client ''get_object'' (bucket_name svc) s3_key expires_in of
              Inl (ClientError m) \<Rightarrow> Inl (Exception (''download URL generation failed: '' @ m))
            | Inl e \<Rightarrow> Inl e
            | Inr url \<Rightarrow> Inr url),
           [PresignedUrl ''get_object'' (bucket_name svc) s3_key expires_in]))"

section \<open>Records of the item directory and the user table (app/models)\<close>

record user =
  u_id :: uuid
  u_username :: string
  u_nickname :: string

datatype VisibilityType = VisibilityType_public | VisibilityType_private

record library_item =
  item_id :: uuid
  item_user_profile_id :: uuid
  item_name :: string
  item_visibility :: VisibilityType
  item_s3_thumbnail_key :: "string option"
  item_s3_key :: string
  item_file_size :: int
  item_original_filename :: string
  item_deleted_at :: "int option"

definition is_deleted :: "library_item \<Rightarrow> bool" where
  "is_deleted item = (item_deleted_at item \<noteq> None)"

text \<open>
  The column \<open>visibility\<close> is declared \<open>Enum(VisibilityType)\<close> and \<open>VisibilityType\<close>
  derives from \<open>enum.Enum\<close> alone, so the attribute of a loaded item is a member of the
  enumeration (\<open>to_dict\<close> reads \<open>self.visibility.value\<close>). Python's \<open>==\<close> between such a
  member and a \<open>str\<close> compares two objects of different classes, neither of which defines
  equality with the other: the values below are equal only when they are the same kind of
  object with the same content.
\<close>

datatype py_value = Str string | EnumMember VisibilityType

definition py_eq :: "py_value \<Rightarrow> py_value \<Rightarrow> bool" where
  "py_eq a b = (a = b)"

section \<open>API dependencies and endpoints (app/api/deps.py, app/api/v1/upload.py)\<close>

text \<open>
  What the endpoints read from their surroundings is gathered in one record: the
  \<open>DEBUG\<close> setting, \<open>jwt.decode\<close> with the configured key and algorithm, the user table
  lookup, the storage service, the clock and the random token. Two functions the
  endpoints call live in modules outside the sources at hand,
  \<open>file_service.validate_upload_request\<close> and \<open>library_item_crud.get\<close>; they are fields of
  the record as well, so every statement below holds for whatever they compute.
  A collaborator that raises returns \<open>Inl\<close>. A decoded token payload maps claim names to
  string values.
\<close>

record 'fi env =
  DEBUG :: bool
  jwt_decode :: "string \<Rightarrow> exn + (string \<rightharpoonup> string)"
  get_by_username :: "string \<Rightarrow> exn + user option"
  library_item_get :: "string \<Rightarrow> exn + library_item option"
  validate_upload_request :: "string \<Rightarrow> string \<Rightarrow> int \<Rightarrow> exn + (bool \<times> string \<times> 'fi)"
  s3_service :: s3_service
  utcnow :: datetime
  uuid4_draw :: uuid

datatype detail =
  ErrorMsg string
| LoginRequired
| CredentialsInvalid
| FileNotFound
| AccessDenied
| UploadUrlError
| DownloadUrlError

datatype http_exception = HTTPException nat detail

text \<open>\<open>get_current_user_optional\<close>: every failure to resolve the caller gives \<open>None\<close>.\<close>

definition get_current_user_optional :: "'fi env \<Rightarrow> string option \<Rightarrow> user option" where
  "get_current_user_optional e credentials =
     (case credentials of
        None \<Rightarrow> None
      | Some token \<Rightarrow>
          (case jwt_decode e token of
             Inl err \<Rightarrow> None
           | Inr payload \<Rightarrow>
               (case payload ''sub'' of
                  None \<Rightarrow> None
                | Some cognito_user_id \<Rightarrow>
                    if cognito_user_id = [] then None
                    else (case get_by_username e cognito_user_id of
                            Inl err \<Rightarrow> None
                          | Inr user \<Rightarrow> user))))"

text \<open>\<open>get_current_user\<close>: every failure raises the same 401.\<close>

definition credentials_exception :: http_exception where
  "credentials_exception = HTTPException 401 CredentialsInvalid"

definition get_current_user :: "'fi env \<Rightarrow> string option \<Rightarrow> http_exception + user" where
  "get_current_user e credentials =
     (case credentials of
        None \<Rightarrow> Inl credentials_exception
      | Some token \<Rightarrow>
          (case jwt_decode e token of
             Inl err \<Rightarrow> Inl credentials_exception
           | Inr payload \<Rightarrow>
               (case payload ''sub'' of
                  None \<Rightarrow> Inl credentials_exception
                | Some cognito_user_id \<Rightarrow>
                    if cognito_user_id = [] then Inl credentials_exception
                    else (case get_by_username e cognito_user_id of
                            Inl err \<Rightarrow> Inl credentials_exception
                          | Inr None \<Rightarrow> Inl credentials_exception
                          | Inr (Some user) \<Rightarrow> Inr user))))"

definition get_current_active_user :: "user \<Rightarrow> user" where
  "get_current_active_user current_user = current_user"

record presigned_url_request =
  req_filename :: string
  req_content_type :: string
  req_file_size :: int

record 'fi presigned_url_response =
  resp_upload_url :: string
  resp_s3_key :: string
  resp_expires_in :: int
  resp_fields :: "(string \<times> string) list"
  resp_file_info :: 'fi

text \<open>
  \<open>generate_real_presigned_url\<close>. The default \<open>expires_in=3600\<close> of the service applies, the
  handler passing none.
\<close>

definition generate_real_presigned_url ::
  "'fi env \<Rightarrow> presigned_url_request \<Rightarrow> user option
   \<Rightarrow> (http_exception + 'fi presigned_url_response) \<times> provider_call list" where
  "generate_real_presigned_url e request current_user =
     (case validate_upload_request e (req_filename request) (req_content_type request)
             (req_file_size request) of
        Inl err \<Rightarrow> (Inl (HTTPException 500 UploadUrlError), [])
      | Inr (valid, error_msg, file_info) \<Rightarrow>
          if \<not> valid then (Inl (HTTPException 400 (ErrorMsg error_msg)), [])
          else
            (case (case current_user of
                     None \<Rightarrow> if \<not> DEBUG e then Inl (HTTPException 401 LoginRequired)
                             else Inr ''test-user''
                   | Some u \<Rightarrow> Inr (str_uuid (u_id u))) of
               Inl h \<Rightarrow> (Inl h, [])
             | Inr user_id \<Rightarrow>
                 (case generate_presigned_upload_url (s3_service e) (utcnow e) (uuid4_draw e)
                         (req_filename request) (req_content_type request) user_id 3600 of
                    (Inl err, calls) \<Rightarrow> (Inl (HTTPException 500 UploadUrlError), calls)
                  | (Inr upload_info, calls) \<Rightarrow>
                      (Inr \<lparr>resp_upload_url = info_upload_url upload_info,
                            resp_s3_key = info_s3_key upload_info,
                            resp_expires_in = info_expires_in upload_info,
                            resp_fields = info_fields upload_info,
                            resp_file_info = file_info\<rparr>, calls))))"

record download_result =
  download_url :: string
  result_filename :: string
  result_file_size :: string
  thumbnail_url :: "string option"

text \<open>
  \<open>generate_download_url\<close>. The handler reads \<open>user_profile_id\<close>, \<open>visibility\<close>, the two keys,
  the file name and the size of the item; it does not read \<open>deleted_at\<close>.
\<close>

definition generate_download_url ::
  "'fi env \<Rightarrow> string \<Rightarrow> user \<Rightarrow> (http_exception + download_result) \<times> provider_call list" where
  "generate_download_url e iid current_user =
     (case library_item_get e iid of
        Inl err \<Rightarrow> (Inl (HTTPException 500 DownloadUrlError), [])
      | Inr None \<Rightarrow> (Inl (HTTPException 404 FileNotFound), [])
      | Inr (Some item) \<Rightarrow>
          (let is_owner = (str_uuid (item_user_profile_id item) = str_uuid (u_id current_user));
               is_public = py_eq (EnumMember (item_visibility item)) (Str ''public'')
           in if \<not> (is_owner \<or> is_public) then (Inl (HTTPException 403 AccessDenied), [])
              else
                (case generate_presigned_download_url (s3_service e) (item_s3_key item) 3600 of
                   (Inl err, calls) \<Rightarrow> (Inl (HTTPException 500 DownloadUrlError), calls)
                 | (Inr url, calls) \<Rightarrow>
                     (case (case item_s3_thumbnail_key item of
                              None \<Rightarrow> (Inr None, [])
                            | Some k \<Rightarrow>
                                if k = [] then (Inr None, [])
                                else (case generate_presigned_download_url (s3_service e) k 3600 of
                                        (Inl err, calls2) \<Rightarrow> (Inl err, calls2)
                                      | (Inr t, calls2) \<Rightarrow> (Inr (Some t), calls2))) of
                        (Inl err, calls2) \<Rightarrow>
                          (Inl (HTTPException 500 DownloadUrlError), calls @ calls2)
                      | (Inr thumb, calls2) \<Rightarrow>
                          (Inr \<lparr>download_url = url,
                                result_filename = item_original_filename item,
                                result_file_size = str_int (item_file_size item),
                                thumbnail_url =
                                  (case thumb of
                                     None \<Rightarrow> None
                                   | Some t \<Rightarrow> if t = [] then None else Some t)\<rparr>,
                           calls @ calls2)))))"

text \<open>
  The two routes with their dependencies resolved as FastAPI does, before the handler runs:
  \<open>POST /presigned-url\<close> depends on \<open>get_current_user_optional\<close>,
  \<open>GET /download/{item_id}\<close> on \<open>get_current_active_user\<close>, whose exception ends the
  request.
\<close>

definition post_presigned_url ::
  "'fi env \<Rightarrow> presigned_url_request \<Rightarrow> string option
   \<Rightarrow> (http_exception + 'fi presigned_url_response) \<times> provider_call list" where
  "post_presigned_url e request credentials =
     generate_real_presigned_url e request (get_current_user_optional e credentials)"

definition get_download ::
  "'fi env \<Rightarrow> string \<Rightarrow> string option \<Rightarrow> (http_exception + download_result) \<times> provider_call list" where
  "get_download e iid credentials =
     (case get_current_user e credentials of
        Inl h \<Rightarrow> (Inl h, [])
      | Inr current_user \<Rightarrow> generate_download_url e iid (get_current_active_user current_user))"

section \<open>Auxiliary notions for the statements\<close>

text \<open>
  The extension as the specification words it: the substring of the file name after its last
  dot, empty if there is no dot.
\<close>

definition spec_extension :: "string \<Rightarrow> string" where
  "spec_extension f =
     (if CHR ''.'' \<in> set f then rev (takeWhile (\<lambda>c. c \<noteq> CHR ''.'') (rev f)) else [])"

text \<open>
  The two file names built inside \<open>generate_thumbnail_key\<close> and \<open>generate_s3_key\<close>, named
  so that lemmas can speak about them; the unfolding lemmas below show that the source
  functions compute exactly these.
\<close>

definition thumbnail_filename :: "string \<Rightarrow> string" where
  "thumbnail_filename filename =
     (let (name, ext) =
            (if CHR ''.'' \<in> set filename then rsplit1 CHR ''.'' filename else (filename, []))
      in if ext \<noteq> [] then name @ ''_thumb.'' @ ext else name @ ''_thumb'')"

definition unique_filename :: "uuid \<Rightarrow> string \<Rightarrow> string" where
  "unique_filename u f =
     (let file_extension = (if CHR ''.'' \<in> set f then last (split_py CHR ''.'' f) else [])
      in if file_extension \<noteq> [] then str_uuid u @ ''.'' @ file_extension else str_uuid u)"

section \<open>Sample data for the closed statements\<close>

text \<open>
  Two stand-ins for the provider client: one that answers every request (for a download it
  answers with the very URL the service builds when it has no client), and one that always
  raises \<open>ClientError\<close>.
\<close>

definition placeholder_client :: s3_client where
  "placeholder_client =
     \<lparr>generate_presigned_post =
        (\<lambda>args. Inr \<lparr>post_url = ''https://'' @ Bucket args @ ''.s3.ap-northeast-2.amazonaws.com/'',
                        post_fields = Fields args\<rparr>),
      generate_presigned_url =
        (\<lambda>method bucket k expires. Inr (''https://'' @ bucket @ ''.s3.amazonaws.com/'' @ k @ ''?mock=true''))\<rparr>"

definition failing_client :: s3_client where
  "failing_client =
     \<lparr>generate_presigned_post = (\<lambda>args. Inl (ClientError ''AccessDenied'')),
      generate_presigned_url = (\<lambda>method bucket k expires. Inl (ClientError ''AccessDenied''))\<rparr>"

text \<open>Two users, an item owned by the first, and an environment around them.\<close>

definition alice :: user where
  "alice = \<lparr>u_id = 1, u_username = ''alice'', u_nickname = ''Alice''\<rparr>"

definition bob :: user where
  "bob = \<lparr>u_id = 2, u_username = ''bob'', u_nickname = ''Bob''\<rparr>"

definition sample_item :: "VisibilityType \<Rightarrow> int option \<Rightarrow> library_item" where
  "sample_item vis deleted =
     \<lparr>item_id = 7,
      item_user_profile_id = 1,
      item_name = ''photo'',
      item_visibility = vis,
      item_s3_thumbnail_key = None,
      item_s3_key = ''uploads/2024/12/u/k.jpg'',
      item_file_size = 1024,
      item_original_filename = ''photo.jpg'',
      item_deleted_at = deleted\<rparr>"

text \<open>
  A stand-in for the validator, which is not among the sources: it rejects an empty file
  name, an empty content type, and a size outside 1 byte .. 100 MiB, the bounds the
  specification gives.
\<close>

definition sample_validate :: "string \<Rightarrow> string \<Rightarrow> int \<Rightarrow> exn + (bool \<times> string \<times> unit)" where
  "sample_validate filename content_type file_size =
     Inr (filename \<noteq> [] \<and> content_type \<noteq> [] \<and> 1 \<le> file_size \<and> file_size \<le> 100 * 1024 * 1024,
          ''invalid upload request'', ())"

definition sample_env :: "bool \<Rightarrow> s3_client option \<Rightarrow> library_item \<Rightarrow> unit env" where
  "sample_env debug client item =
     \<lparr>DEBUG = debug,
      jwt_decode =
        (\<lambda>token. if token = ''alice-token'' then Inr [''sub'' \<mapsto> ''alice'']
                  else if token = ''bob-token'' then Inr [''sub'' \<mapsto> ''bob'']
                  else if token = ''ghost-token'' then Inr [''sub'' \<mapsto> ''ghost'']
                  else if token = ''nosub-token'' then Inr Map.empty
                  else Inl (JWTError ''Signature verification failed'')),
      get_by_username =
        (\<lambda>username. Inr (if username = ''alice'' then Some alice
                           else if username = ''bob'' then Some bob else None)),
      library_item_get = (\<lambda>iid. Inr (if iid = ''item-7'' then Some item else None)),
      validate_upload_request = sample_validate,
      s3_service = \<lparr>s3_client = client, bucket_name = ''bucket''\<rparr>,
      utcnow = \<lparr>year = 2024, month = 12\<rparr>,
      uuid4_draw = 0\<rparr>"

text \<open>Two upload requests: one the stand-in validator accepts, one it rejects (size 0).\<close>

definition good_request :: presigned_url_request where
  "good_request = \<lparr>req_filename = ''a.txt'', req_content_type = ''text/plain'', req_file_size = 10\<rparr>"

definition empty_request :: presigned_url_request where
  "empty_request = \<lparr>req_filename = ''a.txt'', req_content_type = ''text/plain'', req_file_size = 0\<rparr>"

section \<open>Facts about the string primitives\<close>

lemma split_py_nonempty: "split_py c s \<noteq> []"
  by (induction s) (auto split: list.splits)

lemma split_py_no_sep: "c \<notin> set s \<Longrightarrow> split_py c s = [s]"
  by (induction s) auto

lemma split_py_append: "split_py c (a @ c # b) = split_py c a @ split_py c b"
proof (induction a)
  case Nil
  show ?case by simp
next
  case (Cons x a)
  show ?case
  proof (cases "x = c")
    case True
    with Cons show ?thesis by simp
  next
    case False
    obtain p ps where ps: "split_py c a = p # ps"
      using split_py_nonempty [of c a] by (cases "split_py c a") auto
    with Cons False show ?thesis by simp
  qed
qed

lemma last_split_py_after: "c \<notin> set b \<Longrightarrow> last (split_py c (a @ c # b)) = b"
  by (simp add: split_py_append split_py_no_sep)

lemma split_py_parts_no_sep: "p \<in> set (split_py c s) \<Longrightarrow> c \<notin> set p"
proof (induction s arbitrary: p)
  case Nil
  then show ?case by simp
next
  case (Cons x s)
  obtain q qs where qs: "split_py c s = q # qs"
    using split_py_nonempty [of c s] by (cases "split_py c s") auto
  have q: "c \<notin> set q" and rest: "\<And>r. r \<in> set qs \<Longrightarrow> c \<notin> set r"
    using Cons.IH qs by auto
  show ?case
  proof (cases "x = c")
    case True
    with Cons.prems qs q rest show ?thesis by auto
  next
    case False
    with Cons.prems qs q rest show ?thesis by auto
  qed
qed

lemma length_split_py: "length (split_py c s) = Suc (length (filter (\<lambda>x. x = c) s))"
proof (induction s)
  case Nil show ?case by simp
next
  case (Cons x s)
  obtain q qs where qs: "split_py c s = q # qs"
    using split_py_nonempty [of c s] by (cases "split_py c s") auto
  with Cons show ?case by auto
qed

lemma join_split_py: "join_py [c] (split_py c s) = s"
proof (induction s)
  case Nil show ?case by simp
next
  case (Cons x s)
  obtain q qs where qs: "split_py c s = q # qs"
    using split_py_nonempty [of c s] by (cases "split_py c s") auto
  show ?case
  proof (cases "x = c")
    case True
    with Cons qs show ?thesis by simp
  next
    case False
    with Cons qs show ?thesis by (cases qs) auto
  qed
qed

lemma join_py_ends_with_last: "xs \<noteq> [] \<Longrightarrow> \<exists>a. join_py sep xs = a @ last xs"
proof (induction sep xs rule: join_py.induct)
  case (1 sep)
  then show ?case by simp
next
  case (2 sep x)
  show ?case by simp
next
  case (3 sep x y ys)
  then obtain a where "join_py sep (y # ys) = a @ last (y # ys)" by auto
  then have "join_py sep (x # y # ys) = (x @ sep @ a) @ last (x # y # ys)" by simp
  then show ?case by blast
qed

lemma last_split_py_suffix: "\<exists>a. s = a @ last (split_py c s)"
  using join_py_ends_with_last [OF split_py_nonempty, of "[c]" c s]
  by (simp add: join_split_py)

lemma split_join_py:
  "xs \<noteq> [] \<Longrightarrow> (\<forall>x \<in> set xs. c \<notin> set x) \<Longrightarrow> split_py c (join_py [c] xs) = xs"
proof (induction "[c]" xs rule: join_py.induct)
  case 1
  then show ?case by simp
next
  case (2 x)
  then show ?case by (simp add: split_py_no_sep)
next
  case (3 x y ys)
  then have "split_py c (join_py [c] (y # ys)) = y # ys" by simp
  moreover have "split_py c x = [x]" using 3 by (simp add: split_py_no_sep)
  ultimately show ?case using split_py_append [of c x "join_py [c] (y # ys)"] by simp
qed

lemma rsplit1_after: "c \<notin> set b \<Longrightarrow> rsplit1 c (a @ c # b) = (a, b)"
  by (simp add: rsplit1_def Let_def takeWhile_append1 dropWhile_append takeWhile_append)

subsection \<open>Digits and tokens\<close>

lemma digit_char_hex: "d < 16 \<Longrightarrow> digit_char d \<in> set ''0123456789abcdef''"
  unfolding digit_char_def by (rule nth_mem) simp

lemma hex_pad_chars: "set (hex_pad k n) \<subseteq> set ''0123456789abcdef''"
proof (induction k arbitrary: n)
  case 0
  show ?case by simp
next
  case (Suc k)
  have "digit_char (n mod 16) \<in> set ''0123456789abcdef''"
    by (rule digit_char_hex) simp
  with Suc [of "n div 16"] show ?case by simp
qed

lemma length_hex_pad: "length (hex_pad k n) = k"
  by (induction k arbitrary: n) auto

lemma uuid_groups_chars:
  assumes "set h \<subseteq> A"
  shows "set (take 8 h @ ''-'' @ take 4 (drop 8 h) @ ''-'' @ take 4 (drop 12 h) @ ''-''
              @ take 4 (drop 16 h) @ ''-'' @ drop 20 h) \<subseteq> insert CHR ''-'' A"
  using assms by (auto dest!: in_set_takeD in_set_dropD)

lemma str_uuid_chars: "set (str_uuid u) \<subseteq> insert CHR ''-'' (set ''0123456789abcdef'')"
  unfolding str_uuid_def Let_def by (rule uuid_groups_chars) (rule hex_pad_chars)

lemma str_uuid_no_dot: "CHR ''.'' \<notin> set (str_uuid u)"
  using str_uuid_chars [of u] by auto

lemma str_uuid_no_slash: "CHR ''/'' \<notin> set (str_uuid u)"
  using str_uuid_chars [of u] by auto

lemma length_str_uuid: "length (str_uuid u) = 36"
proof -
  have "length (hex_pad 32 (unat u)) = 32" by (rule length_hex_pad)
  then show ?thesis unfolding str_uuid_def Let_def by (simp del: hex_pad.simps)
qed

lemma str_nat_4digits:
  assumes "1000 \<le> n" "n \<le> 9999"
  shows "str_nat n = [digit_char (n div 1000), digit_char (n div 100 mod 10),
                      digit_char (n div 10 mod 10), digit_char (n mod 10)]"
proof -
  have a: "\<not> n < 10" "\<not> n div 10 < 10" "\<not> n div 10 div 10 < 10" "n div 10 div 10 div 10 < 10"
    using assms by auto
  have "n div 100 = n div (10 * 10)" "n div 1000 = n div (10 * 10 * 10)"
    by simp_all
  then have b: "n div 10 div 10 = n div 100" "n div 10 div 10 div 10 = n div 1000"
    by (simp_all only: div_mult2_eq)
  have "str_nat n = str_nat (n div 10) @ [digit_char (n mod 10)]"
    using a(1) str_nat.simps [of n] by simp
  also have "str_nat (n div 10) = str_nat (n div 10 div 10) @ [digit_char (n div 10 mod 10)]"
    using a(2) str_nat.simps [of "n div 10"] by simp
  also have "str_nat (n div 10 div 10)
      = str_nat (n div 10 div 10 div 10) @ [digit_char (n div 10 div 10 mod 10)]"
    using a(3) str_nat.simps [of "n div 10 div 10"] by simp
  also have "str_nat (n div 10 div 10 div 10) = [digit_char (n div 10 div 10 div 10)]"
    using a(4) str_nat.simps [of "n div 10 div 10 div 10"] by simp
  finally have "str_nat n = [digit_char (n div 10 div 10 div 10), digit_char (n div 10 div 10 mod 10),
                      digit_char (n div 10 mod 10), digit_char (n mod 10)]"
    by (simp only: append_Cons append_Nil)
  moreover have "n div 10 div 10 div 10 = n div 1000" "n div 10 div 10 mod 10 = n div 100 mod 10"
    using b by simp_all
  ultimately show ?thesis by (simp only:)
qed

lemma fmt_02d_2digits:
  assumes "n < 100"
  shows "fmt_02d n = [digit_char (n div 10), digit_char (n mod 10)]"
proof (cases "n < 10")
  case True
  then have "str_nat n = [digit_char n]" using str_nat.simps [of n] by simp
  moreover have "digit_char 0 = CHR ''0''" by (simp add: digit_char_def)
  ultimately show ?thesis using True by (simp add: fmt_02d_def Let_def)
next
  case False
  then have "str_nat n = str_nat (n div 10) @ [digit_char (n mod 10)]"
    using str_nat.simps [of n] by simp
  moreover have "n div 10 < 10" using assms by simp
  then have "str_nat (n div 10) = [digit_char (n div 10)]"
    using str_nat.simps [of "n div 10"] by simp
  ultimately show ?thesis by (simp add: fmt_02d_def Let_def)
qed

lemma digit_char_dec: "d < 10 \<Longrightarrow> digit_char d \<in> set ''0123456789''"
proof -
  assume "d < 10"
  then have "d \<in> {0,1,2,3,4,5,6,7,8,9}" by auto
  then show ?thesis by (auto simp: digit_char_def)
qed

lemma str_nat_digits: "set (str_nat n) \<subseteq> set ''0123456789''"
proof (induction n rule: str_nat.induct)
  case (1 n)
  show ?case
  proof (cases "n < 10")
    case True
    then show ?thesis using digit_char_dec [of n] str_nat.simps [of n] by simp
  next
    case False
    have "digit_char (n mod 10) \<in> set ''0123456789''" by (rule digit_char_dec) simp
    with False 1 show ?thesis using str_nat.simps [of n] by simp
  qed
qed

subsection \<open>Extensions, thumbnail file names and generated keys\<close>

lemma last_split_py_takeWhile:
  assumes "c \<in> set s"
  shows "last (split_py c s) = rev (takeWhile (\<lambda>x. x \<noteq> c) (rev s))"
proof -
  from assms obtain a b where ab: "s = a @ c # b" "c \<notin> set b"
    by (auto dest: split_list_last)
  then have "last (split_py c s) = b" by (simp add: last_split_py_after)
  moreover have "takeWhile (\<lambda>x. x \<noteq> c) (rev s) = rev b"
    using ab by (simp add: takeWhile_append)
  ultimately show ?thesis by simp
qed

lemma generate_thumbnail_key_unfold:
  "generate_thumbnail_key k =
     ''thumbnails/'' @ join_py ''/'' (butlast (tl (split_py CHR ''/'' k))) @ ''/''
     @ thumbnail_filename (last (split_py CHR ''/'' k))"
  by (simp add: generate_thumbnail_key_def thumbnail_filename_def Let_def split: prod.splits)

lemma thumbnail_filename_no_dot:
  "CHR ''.'' \<notin> set L \<Longrightarrow> thumbnail_filename L = L @ ''_thumb''"
  by (simp add: thumbnail_filename_def)

lemma thumbnail_filename_ext:
  "CHR ''.'' \<notin> set x \<Longrightarrow> x \<noteq> [] \<Longrightarrow> thumbnail_filename (n @ ''.'' @ x) = n @ ''_thumb.'' @ x"
  using rsplit1_after [of "CHR ''.''" x n] by (simp add: thumbnail_filename_def)

lemma thumbnail_filename_trailing_dot:
  "thumbnail_filename (n @ ''.'') = n @ ''_thumb''"
  using rsplit1_after [of "CHR ''.''" "[]" n] by (simp add: thumbnail_filename_def)

lemma thumbnail_filename_no_slash:
  assumes "CHR ''/'' \<notin> set L"
  shows "CHR ''/'' \<notin> set (thumbnail_filename L)"
proof (cases "CHR ''.'' \<in> set L")
  case False
  with assms show ?thesis by (simp add: thumbnail_filename_no_dot)
next
  case True
  then obtain a b where ab: "L = a @ CHR ''.'' # b" "CHR ''.'' \<notin> set b"
    by (auto dest: split_list_last)
  show ?thesis
  proof (cases "b = []")
    case True
    with ab assms show ?thesis using thumbnail_filename_trailing_dot [of a] by simp
  next
    case False
    with ab assms show ?thesis using thumbnail_filename_ext [of b a] by simp
  qed
qed

lemma join_py_Cons: "xs \<noteq> [] \<Longrightarrow> join_py sep (x # xs) = x @ sep @ join_py sep xs"
  by (cases xs) simp_all

lemma join_py_snoc: "xs \<noteq> [] \<Longrightarrow> join_py sep (xs @ [y]) = join_py sep xs @ sep @ y"
proof (induction sep xs rule: join_py.induct)
  case (1 sep)
  then show ?case by simp
next
  case (2 sep x)
  show ?case by simp
next
  case (3 sep x y' ys)
  then show ?case by simp
qed

lemma split_thumbnail_key:
  assumes parts: "split_py CHR ''/'' k = p0 # mid @ [L]" and mid: "mid \<noteq> []"
  shows "split_py CHR ''/'' (generate_thumbnail_key k) =
           ''thumbnails'' # mid @ [thumbnail_filename L]"
proof -
  have bl: "butlast (tl (split_py CHR ''/'' k)) = mid" "last (split_py CHR ''/'' k) = L"
    using parts by simp_all
  have "generate_thumbnail_key k = ''thumbnails'' @ ''/'' @ join_py ''/'' (mid @ [thumbnail_filename L])"
    using mid by (simp add: generate_thumbnail_key_unfold bl join_py_snoc)
  also have "\<dots> = join_py ''/'' (''thumbnails'' # mid @ [thumbnail_filename L])"
    by (rule join_py_Cons [symmetric]) simp
  finally have eq: "generate_thumbnail_key k = join_py ''/'' (''thumbnails'' # mid @ [thumbnail_filename L])" .
  have in_parts: "\<And>p. p \<in> set (split_py CHR ''/'' k) \<Longrightarrow> CHR ''/'' \<notin> set p"
    by (rule split_py_parts_no_sep)
  have "CHR ''/'' \<notin> set L" using in_parts [of L] parts by simp
  then have T: "CHR ''/'' \<notin> set (thumbnail_filename L)" by (rule thumbnail_filename_no_slash)
  have M: "\<forall>p \<in> set mid. CHR ''/'' \<notin> set p" using in_parts parts by simp
  have "\<forall>x \<in> set (''thumbnails'' # mid @ [thumbnail_filename L]). CHR ''/'' \<notin> set x"
    using T M by simp
  then show ?thesis unfolding eq by (intro split_join_py) simp_all
qed

lemma generate_s3_key_unfold:
  "generate_s3_key now u f owner =
     ''uploads/'' @ str_nat (year now) @ ''/'' @ fmt_02d (month now) @ ''/'' @ owner @ ''/''
     @ unique_filename u f"
  by (simp add: generate_s3_key_def unique_filename_def Let_def)

lemma str_uuid_nonempty: "str_uuid u \<noteq> []"
  using length_str_uuid [of u] by auto

lemma str_nat_no_slash: "CHR ''/'' \<notin> set (str_nat n)"
  using str_nat_digits [of n] by auto

lemma fmt_02d_no_slash: "CHR ''/'' \<notin> set (fmt_02d n)"
  using str_nat_no_slash [of n] by (auto simp: fmt_02d_def Let_def)

lemma unique_filename_last_not_dot:
  "unique_filename u f \<noteq> [] \<and> last (unique_filename u f) \<noteq> CHR ''.''"
proof -
  let ?e = "last (split_py CHR ''.'' f)"
  have U: "str_uuid u \<noteq> []" by (rule str_uuid_nonempty)
  have lastU: "last (str_uuid u) \<noteq> CHR ''.''"
    using U str_uuid_no_dot [of u] last_in_set [of "str_uuid u"] by metis
  have "?e \<in> set (split_py CHR ''.'' f)"
    using split_py_nonempty by (rule last_in_set)
  then have e: "CHR ''.'' \<notin> set ?e" by (rule split_py_parts_no_sep)
  have laste: "?e \<noteq> [] \<Longrightarrow> last ?e \<noteq> CHR ''.''"
    using e last_in_set [of ?e] by metis
  show ?thesis
    using U lastU laste by (auto simp: unique_filename_def Let_def)
qed

lemma split_generated_key:
  "split_py CHR ''/'' (generate_s3_key now u f owner) =
     ''uploads'' # str_nat (year now) # fmt_02d (month now)
     # split_py CHR ''/'' owner @ split_py CHR ''/'' (unique_filename u f)"
proof -
  let ?F = "unique_filename u f"
  have "generate_s3_key now u f owner =
      ''uploads'' @ CHR ''/'' # (str_nat (year now) @ CHR ''/'' # (fmt_02d (month now)
        @ CHR ''/'' # (owner @ CHR ''/'' # ?F)))"
    by (simp add: generate_s3_key_unfold)
  then show ?thesis
    by (simp only: split_py_append split_py_no_sep [OF str_nat_no_slash]
        split_py_no_sep [OF fmt_02d_no_slash])
       (simp add: split_py_no_sep)
qed

lemma generated_key_parts:
  "\<exists>mid. mid \<noteq> [] \<and>
     split_py CHR ''/'' (generate_s3_key now u f owner) =
       ''uploads'' # mid @ [last (split_py CHR ''/'' (unique_filename u f))]
     \<and> take 2 mid = [str_nat (year now), fmt_02d (month now)]"
proof -
  let ?F = "split_py CHR ''/'' (unique_filename u f)"
  let ?mid = "str_nat (year now) # fmt_02d (month now) # split_py CHR ''/'' owner @ butlast ?F"
  have "?F \<noteq> []" by (rule split_py_nonempty)
  then have "?F = butlast ?F @ [last ?F]" by simp
  then have "split_py CHR ''/'' (generate_s3_key now u f owner) = ''uploads'' # ?mid @ [last ?F]"
    by (simp add: split_generated_key)
  then show ?thesis by (intro exI [of _ ?mid]) simp
qed

lemma last_segment_generated_key:
  "last (split_py CHR ''/'' (generate_s3_key now u f owner)) =
     last (split_py CHR ''/'' (unique_filename u f))"
  using generated_key_parts [of now u f owner] by auto

lemma last_segment_not_trailing_dot:
  "last (split_py CHR ''/'' (generate_s3_key now u f owner)) \<noteq> n @ ''.''"
proof
  let ?F = "unique_filename u f"
  assume "last (split_py CHR ''/'' (generate_s3_key now u f owner)) = n @ ''.''"
  then have L: "last (split_py CHR ''/'' ?F) = n @ ''.''"
    by (simp add: last_segment_generated_key)
  obtain a where "?F = a @ last (split_py CHR ''/'' ?F)"
    using last_split_py_suffix [of ?F "CHR ''/''"] by blast
  with L have "?F = (a @ n) @ ''.''" by simp
  then have "last ?F = CHR ''.''" by (metis last_snoc)
  then show False using unique_filename_last_not_dot [of u f] by simp
qed

lemma ends_with_dot_last_part_empty: "last (split_py c (a @ [c])) = []"
  using last_split_py_after [of c "[]" a] by simp

lemma str_uuid_zero: "str_uuid 0 = ''00000000-0000-0000-0000-000000000000''"
  by code_simp

section \<open>Key derivation: the claims\<close>

text \<open>
  C5. For every file name and owner id, and a clock whose year has four digits,
  \<open>generate_s3_key\<close> returns \<open>uploads/<year>/<month>/<owner>/<token>\<close> followed by
  \<open>.<ext>\<close> when the extension is not empty and by nothing otherwise: the year is printed
  with four digits, the month with two (zero-padded), the token is the printed UUID, and
  the extension is the substring of the file name after its last dot (empty if there is
  no dot). The function is total: it has no failing branch.
\<close>

theorem generate_s3_key_format:
  assumes "1000 \<le> year now" "year now \<le> 9999" "month now \<le> 12"
  shows "generate_s3_key now u f owner =
           ''uploads/''
           @ [digit_char (year now div 1000), digit_char (year now div 100 mod 10),
              digit_char (year now div 10 mod 10), digit_char (year now mod 10)]
           @ ''/'' @ [digit_char (month now div 10), digit_char (month now mod 10)]
           @ ''/'' @ owner @ ''/'' @ str_uuid u
           @ (if spec_extension f = [] then [] else ''.'' @ spec_extension f)"
proof -
  have y: "str_nat (year now) =
      [digit_char (year now div 1000), digit_char (year now div 100 mod 10),
       digit_char (year now div 10 mod 10), digit_char (year now mod 10)]"
    using assms(1,2) by (rule str_nat_4digits)
  have m: "fmt_02d (month now) = [digit_char (month now div 10), digit_char (month now mod 10)]"
    using assms(3) by (intro fmt_02d_2digits) simp
  have e: "(if CHR ''.'' \<in> set f then last (split_py CHR ''.'' f) else []) = spec_extension f"
    by (simp add: spec_extension_def last_split_py_takeWhile)
  show ?thesis
    unfolding generate_s3_key_def Let_def e y m by simp
qed

theorem generate_s3_key_format_witness:
  "1000 \<le> year \<lparr>year = 2024, month = 12\<rparr> \<and> year \<lparr>year = 2024, month = 12\<rparr> \<le> 9999
   \<and> month \<lparr>year = 2024, month = 12\<rparr> \<le> 12
   \<and> generate_s3_key \<lparr>year = 2024, month = 12\<rparr> 0 ''photo.jpg'' ''user-42''
       = ''uploads/2024/12/user-42/00000000-0000-0000-0000-000000000000.jpg''
   \<and> generate_s3_key \<lparr>year = 2024, month = 12\<rparr> 0 ''README'' ''user-42''
       = ''uploads/2024/12/user-42/00000000-0000-0000-0000-000000000000''"
proof -
  let ?now = "\<lparr>year = 2024, month = 12\<rparr>"
  have h: "1000 \<le> year ?now" "year ?now \<le> 9999" "month ?now \<le> 12" by simp_all
  have e: "spec_extension ''photo.jpg'' = ''jpg''" "spec_extension ''README'' = []"
    by (simp_all add: spec_extension_def)
  show ?thesis
    using generate_s3_key_format [OF h, of 0 "''photo.jpg''" "''user-42''"]
      generate_s3_key_format [OF h, of 0 "''README''" "''user-42''"]
    by (simp add: e str_uuid_zero digit_char_def)
qed

text \<open>
  C6. For every file name and owner id, the thumbnail key of a generated storage key starts
  with \<open>thumbnails/\<close>; split at the slashes, its first segment is \<open>thumbnails\<close>, its
  interior segments are those of the storage key (they begin with the year and the month),
  and its last segment is the storage key's last segment with \<open>_thumb\<close> appended when that
  has no dot, and with \<open>_thumb\<close> inserted before the final \<open>.<ext>\<close> when it has one.
\<close>

theorem thumbnail_key_of_storage_key:
  "let k = generate_s3_key now u f owner;
       t = generate_thumbnail_key k;
       L = last (split_py CHR ''/'' k)
   in take 11 t = ''thumbnails/''
      \<and> hd (split_py CHR ''/'' t) = ''thumbnails''
      \<and> butlast (tl (split_py CHR ''/'' t)) = butlast (tl (split_py CHR ''/'' k))
      \<and> take 2 (butlast (tl (split_py CHR ''/'' k))) = [str_nat (year now), fmt_02d (month now)]
      \<and> (CHR ''.'' \<notin> set L \<longrightarrow> last (split_py CHR ''/'' t) = L @ ''_thumb'')
      \<and> (\<forall>n x. L = n @ ''.'' @ x \<and> CHR ''.'' \<notin> set x
            \<longrightarrow> last (split_py CHR ''/'' t) = n @ ''_thumb.'' @ x)"
proof -
  define k where "k = generate_s3_key now u f owner"
  define t where "t = generate_thumbnail_key k"
  define L where "L = last (split_py CHR ''/'' k)"
  obtain mid where mid: "mid \<noteq> []"
      "split_py CHR ''/'' k = ''uploads'' # mid @ [last (split_py CHR ''/'' (unique_filename u f))]"
      "take 2 mid = [str_nat (year now), fmt_02d (month now)]"
    using generated_key_parts [of now u f owner] unfolding k_def by blast
  have L: "L = last (split_py CHR ''/'' (unique_filename u f))"
    unfolding L_def using mid(2) by simp
  have parts_k: "split_py CHR ''/'' k = ''uploads'' # mid @ [L]"
    using mid(2) L by simp
  have parts_t: "split_py CHR ''/'' t = ''thumbnails'' # mid @ [thumbnail_filename L]"
    unfolding t_def using parts_k mid(1) by (rule split_thumbnail_key)
  have 1: "take 11 t = ''thumbnails/''"
    unfolding t_def by (simp add: generate_thumbnail_key_unfold)
  have 2: "hd (split_py CHR ''/'' t) = ''thumbnails''"
    using parts_t by simp
  have 3: "butlast (tl (split_py CHR ''/'' t)) = butlast (tl (split_py CHR ''/'' k))"
    using parts_t parts_k by simp
  have 4: "take 2 (butlast (tl (split_py CHR ''/'' k))) = [str_nat (year now), fmt_02d (month now)]"
    using parts_k mid(3) by simp
  have lt: "last (split_py CHR ''/'' t) = thumbnail_filename L"
    using parts_t by simp
  have 5: "CHR ''.'' \<notin> set L \<longrightarrow> last (split_py CHR ''/'' t) = L @ ''_thumb''"
    using lt by (simp add: thumbnail_filename_no_dot)
  have 6: "\<forall>n x. L = n @ ''.'' @ x \<and> CHR ''.'' \<notin> set x
            \<longrightarrow> last (split_py CHR ''/'' t) = n @ ''_thumb.'' @ x"
  proof (intro allI impI)
    fix n x
    assume a: "L = n @ ''.'' @ x \<and> CHR ''.'' \<notin> set x"
    have "x \<noteq> []"
    proof
      assume "x = []"
      with a have "last (split_py CHR ''/'' (generate_s3_key now u f owner)) = n @ ''.''"
        unfolding L_def k_def by simp
      then show False using last_segment_not_trailing_dot by blast
    qed
    with a show "last (split_py CHR ''/'' t) = n @ ''_thumb.'' @ x"
      using lt thumbnail_filename_ext [of x n] by simp
  qed
  show ?thesis
    unfolding Let_def k_def [symmetric] t_def [symmetric] L_def [symmetric]
    using 1 2 3 4 5 6 by blast
qed

theorem thumbnail_key_of_storage_key_witness:
  "last (split_py CHR ''/'' (generate_thumbnail_key
      (generate_s3_key \<lparr>year = 2024, month = 12\<rparr> 0 ''photo.jpg'' ''user-42'')))
     = ''00000000-0000-0000-0000-000000000000_thumb.jpg''
   \<and> last (split_py CHR ''/'' (generate_thumbnail_key
      (generate_s3_key \<lparr>year = 2024, month = 12\<rparr> 0 ''README'' ''user-42'')))
     = ''00000000-0000-0000-0000-000000000000_thumb''"
proof -
  let ?now = "\<lparr>year = 2024, month = 12\<rparr>"
  have k1: "generate_s3_key ?now 0 ''photo.jpg'' ''user-42''
      = ''uploads/2024/12/user-42/00000000-0000-0000-0000-000000000000.jpg''"
    by code_simp
  have k2: "generate_s3_key ?now 0 ''README'' ''user-42''
      = ''uploads/2024/12/user-42/00000000-0000-0000-0000-000000000000''"
    by code_simp
  have L1: "last (split_py CHR ''/'' (generate_s3_key ?now 0 ''photo.jpg'' ''user-42''))
      = ''00000000-0000-0000-0000-000000000000'' @ ''.'' @ ''jpg'' \<and> CHR ''.'' \<notin> set ''jpg''"
    unfolding k1 by simp
  have L2: "CHR ''.'' \<notin> set (last (split_py CHR ''/'' (generate_s3_key ?now 0 ''README'' ''user-42'')))"
    unfolding k2 by simp
  have L2': "last (split_py CHR ''/'' (generate_s3_key ?now 0 ''README'' ''user-42''))
      = ''00000000-0000-0000-0000-000000000000''"
    unfolding k2 by simp
  from thumbnail_key_of_storage_key [of ?now 0 "''photo.jpg''" "''user-42''"] L1
  have a: "last (split_py CHR ''/'' (generate_thumbnail_key
      (generate_s3_key ?now 0 ''photo.jpg'' ''user-42'')))
     = ''00000000-0000-0000-0000-000000000000'' @ ''_thumb.'' @ ''jpg''"
    unfolding Let_def by blast
  from thumbnail_key_of_storage_key [of ?now 0 "''README''" "''user-42''"] L2
  have b: "last (split_py CHR ''/'' (generate_thumbnail_key
      (generate_s3_key ?now 0 ''README'' ''user-42'')))
     = last (split_py CHR ''/'' (generate_s3_key ?now 0 ''README'' ''user-42'')) @ ''_thumb''"
    unfolding Let_def by blast
  show ?thesis using a b L2' by simp
qed

text \<open>
  C10. For every file name whose last dot-separated part is empty (a file name ending in a
  dot, or the empty name), \<open>generate_s3_key\<close> adds no extension: the key ends with the bare
  token, which is its last path segment and contains no dot.
\<close>

theorem trailing_dot_has_no_extension:
  assumes "last (split_py CHR ''.'' f) = []"
  shows "generate_s3_key now u f owner =
           ''uploads/'' @ str_nat (year now) @ ''/'' @ fmt_02d (month now) @ ''/'' @ owner
           @ ''/'' @ str_uuid u
         \<and> last (split_py CHR ''/'' (generate_s3_key now u f owner)) = str_uuid u
         \<and> CHR ''.'' \<notin> set (last (split_py CHR ''/'' (generate_s3_key now u f owner)))"
proof -
  have F: "unique_filename u f = str_uuid u"
    using assms by (simp add: unique_filename_def)
  have 1: "generate_s3_key now u f owner =
           ''uploads/'' @ str_nat (year now) @ ''/'' @ fmt_02d (month now) @ ''/'' @ owner
           @ ''/'' @ str_uuid u"
    by (simp add: generate_s3_key_unfold F)
  have 2: "last (split_py CHR ''/'' (generate_s3_key now u f owner)) = str_uuid u"
    by (simp add: last_segment_generated_key F split_py_no_sep str_uuid_no_slash)
  show ?thesis using 1 2 str_uuid_no_dot [of u] by simp
qed

theorem trailing_dot_has_no_extension_witness:
  "last (split_py CHR ''.'' ''report.'') = []
   \<and> generate_s3_key \<lparr>year = 2024, month = 3\<rparr> 0 ''report.'' ''user-42''
       = ''uploads/2024/03/user-42/00000000-0000-0000-0000-000000000000''"
proof -
  have h: "last (split_py CHR ''.'' ''report.'') = []" by simp
  have y: "str_nat 2024 = ''2024''" "fmt_02d 3 = ''03''" by code_simp+
  show ?thesis
    using h trailing_dot_has_no_extension [OF h, of "\<lparr>year = 2024, month = 3\<rparr>" 0 "''user-42''"]
    by (simp add: y str_uuid_zero)
qed

section \<open>The storage service: the claims\<close>

lemma generate_presigned_download_url_cases:
  "(\<exists>url calls. generate_presigned_download_url svc k ex = (Inr url, calls))
   \<or> (\<exists>err calls. calls \<noteq> [] \<and> generate_presigned_download_url svc k ex = (Inl err, calls))"
  by (auto simp: generate_presigned_download_url_def split: option.splits sum.splits exn.splits)

lemma generate_presigned_upload_url_trace:
  "generate_presigned_upload_url svc now u filename content_type user_id expires_in = (r, calls)
   \<Longrightarrow> calls \<noteq> [] \<Longrightarrow> \<exists>client. s3_client svc = Some client"
  by (auto simp: generate_presigned_upload_url_def Let_def split: option.splits)

lemma generate_presigned_upload_url_key:
  "generate_presigned_upload_url svc now u filename content_type user_id expires_in = (Inr info, calls)
   \<Longrightarrow> info_s3_key info = generate_s3_key now u filename user_id"
  by (auto simp: generate_presigned_upload_url_def Let_def split: option.splits sum.splits exn.splits)

text \<open>
  C3, as stated, fails for the download operation: its response is the URL and nothing else
  (the method returns \<open>str\<close>), so it carries no flag apart from the URL. The response of
  the service without a client is the very value a service with a client returns when the
  provider answers with that URL.
\<close>

theorem degraded_download_response_is_a_live_response:
  "s3_client \<lparr>s3_client = None, bucket_name = ''bucket''\<rparr> = None
   \<and> s3_client \<lparr>s3_client = Some placeholder_client, bucket_name = ''bucket''\<rparr>
       = Some placeholder_client
   \<and> fst (generate_presigned_download_url \<lparr>s3_client = None, bucket_name = ''bucket''\<rparr>
            ''uploads/2024/12/u/k.jpg'' 3600)
     = fst (generate_presigned_download_url
              \<lparr>s3_client = Some placeholder_client, bucket_name = ''bucket''\<rparr>
              ''uploads/2024/12/u/k.jpg'' 3600)"
  by (simp add: generate_presigned_download_url_def placeholder_client_def)

text \<open>
  C3, amended. Without a provider client (\<open>s3_client = None\<close>), for every input, both
  operations make no provider call (the trace is empty) and both succeed. The upload
  response carries the explicit flag \<open>is_mock = True\<close>, the derived key, and a placeholder
  URL on that key. The download response is only the placeholder URL
  \<open>https://<bucket>.s3.amazonaws.com/<key>?mock=true\<close>: its non-live status is visible in the
  URL's \<open>?mock=true\<close> suffix alone.
\<close>

theorem degraded_mode_credentials:
  "(\<exists>r. generate_presigned_upload_url (svc\<lparr>s3_client := None\<rparr>) now u filename content_type
             user_id expires_in = (Inr r, [])
         \<and> is_mock r = True
         \<and> info_s3_key r = generate_s3_key now u filename user_id
         \<and> info_upload_url r
             = ''https://'' @ bucket_name svc @ ''.s3.amazonaws.com/''
               @ generate_s3_key now u filename user_id @ ''?mock=true'')
   \<and> generate_presigned_download_url (svc\<lparr>s3_client := None\<rparr>) k expires_in
       = (Inr (''https://'' @ bucket_name svc @ ''.s3.amazonaws.com/'' @ k @ ''?mock=true''), [])"
  by (simp add: generate_presigned_upload_url_def generate_presigned_download_url_def Let_def)

text \<open>
  C4. With a provider client, for every file name, content type, owner id, clock, token and
  expiry, \<open>generate_presigned_upload_url\<close> makes exactly one provider request, a presigned
  POST on the derived key, whose conditions are exactly: content type equal to the given
  one, metadata \<open>user-id\<close> equal to the owner id, metadata \<open>original-filename\<close> equal to the
  file name, and content length between 1 and 104857600 (100 * 1024 * 1024) bytes. A
  credential that is returned is the provider's answer to that request and is not flagged
  as mock.
\<close>

theorem live_upload_grant_conditions:
  "snd (generate_presigned_upload_url (svc\<lparr>s3_client := Some client\<rparr>) now u filename
          content_type user_id expires_in)
   = [PresignedPost
        \<lparr>Bucket = bucket_name svc,
         Key = generate_s3_key now u filename user_id,
         Fields = [(''Content-Type'', content_type),
                   (''x-amz-meta-user-id'', user_id),
                   (''x-amz-meta-original-filename'', filename)],
         Conditions = [Exact ''Content-Type'' content_type,
                       Exact ''x-amz-meta-user-id'' user_id,
                       Exact ''x-amz-meta-original-filename'' filename,
                       ContentLengthRange 1 104857600],
         ExpiresIn = expires_in\<rparr>]
   \<and> (\<forall>r. fst (generate_presigned_upload_url (svc\<lparr>s3_client := Some client\<rparr>) now u filename
                 content_type user_id expires_in) = Inr r
          \<longrightarrow> \<not> is_mock r
              \<and> (\<exists>response.
                    generate_presigned_post client
                      \<lparr>Bucket = bucket_name svc,
                       Key = generate_s3_key now u filename user_id,
                       Fields = [(''Content-Type'', content_type),
                                 (''x-amz-meta-user-id'', user_id),
                                 (''x-amz-meta-original-filename'', filename)],
                       Conditions = [Exact ''Content-Type'' content_type,
                                     Exact ''x-amz-meta-user-id'' user_id,
                                     Exact ''x-amz-meta-original-filename'' filename,
                                     ContentLengthRange 1 104857600],
                       ExpiresIn = expires_in\<rparr> = Inr response
                    \<and> info_upload_url r = post_url response
                    \<and> info_fields r = post_fields response
                    \<and> info_s3_key r = generate_s3_key now u filename user_id))"
  by (auto simp: generate_presigned_upload_url_def Let_def split: sum.splits exn.splits)

theorem live_upload_grant_conditions_witness:
  "fst (generate_presigned_upload_url (\<lparr>s3_client = None, bucket_name = ''bucket''\<rparr>
          \<lparr>s3_client := Some placeholder_client\<rparr>) \<lparr>year = 2024, month = 12\<rparr> 0
          ''a.txt'' ''text/plain'' ''user-42'' 3600)
   = Inr \<lparr>info_upload_url = ''https://bucket.s3.ap-northeast-2.amazonaws.com/'',
          info_s3_key = ''uploads/2024/12/user-42/00000000-0000-0000-0000-000000000000.txt'',
          info_expires_in = 3600,
          info_fields = [(''Content-Type'', ''text/plain''),
                         (''x-amz-meta-user-id'', ''user-42''),
                         (''x-amz-meta-original-filename'', ''a.txt'')],
          is_mock = False\<rparr>
   \<and> \<not> is_mock \<lparr>info_upload_url = ''https://bucket.s3.ap-northeast-2.amazonaws.com/'',
          info_s3_key = ''uploads/2024/12/user-42/00000000-0000-0000-0000-000000000000.txt'',
          info_expires_in = 3600,
          info_fields = [(''Content-Type'', ''text/plain''),
                         (''x-amz-meta-user-id'', ''user-42''),
                         (''x-amz-meta-original-filename'', ''a.txt'')],
          is_mock = False\<rparr>"
proof -
  let ?svc = "\<lparr>s3_client = None, bucket_name = ''bucket''\<rparr>"
  let ?r = "\<lparr>info_upload_url = ''https://bucket.s3.ap-northeast-2.amazonaws.com/'',
          info_s3_key = ''uploads/2024/12/user-42/00000000-0000-0000-0000-000000000000.txt'',
          info_expires_in = 3600,
          info_fields = [(''Content-Type'', ''text/plain''),
                         (''x-amz-meta-user-id'', ''user-42''),
                         (''x-amz-meta-original-filename'', ''a.txt'')],
          is_mock = False\<rparr>"
  have h: "fst (generate_presigned_upload_url (?svc\<lparr>s3_client := Some placeholder_client\<rparr>)
          \<lparr>year = 2024, month = 12\<rparr> 0 ''a.txt'' ''text/plain'' ''user-42'' 3600) = Inr ?r"
    by code_simp
  from live_upload_grant_conditions [where svc = ?svc and client = placeholder_client
      and now = "\<lparr>year = 2024, month = 12\<rparr>" and u = 0 and filename = "''a.txt''"
      and content_type = "''text/plain''" and user_id = "''user-42''" and expires_in = 3600] h
  have "\<not> is_mock ?r" by blast
  with h show ?thesis by blast
qed

section \<open>The download endpoint: the claims\<close>

text \<open>
  The handler never reads \<open>deleted_at\<close>: whatever timestamp the looked-up item carries, the
  outcome is the same.
\<close>

lemma generate_download_url_ignores_deleted_at:
  "generate_download_url (e\<lparr>library_item_get := (\<lambda>i. Inr (Some (item\<lparr>item_deleted_at := d\<rparr>)))\<rparr>) iid u
   = generate_download_url (e\<lparr>library_item_get := (\<lambda>i. Inr (Some item))\<rparr>) iid u"
  by (simp add: generate_download_url_def
      cong: prod.case_cong sum.case_cong option.case_cong if_cong)

text \<open>
  C1. The claim asks for 404 on every soft-deleted item. The handler does otherwise: for a
  soft-deleted private item that the directory returns, the owner's request succeeds and a
  download URL is issued.
\<close>

theorem soft_deleted_item_served_to_owner:
  "is_deleted (sample_item VisibilityType_private (Some 1700000000))
   \<and> get_download (sample_env False None (sample_item VisibilityType_private (Some 1700000000)))
       ''item-7'' (Some ''alice-token'')
     = (Inr \<lparr>download_url = ''https://bucket.s3.amazonaws.com/uploads/2024/12/u/k.jpg?mock=true'',
             result_filename = ''photo.jpg'',
             result_file_size = ''1024'',
             thumbnail_url = None\<rparr>, [])"
  by code_simp

text \<open>
  C2, as stated, fails for a caller without identity: the route depends on
  \<open>get_current_active_user\<close>, so a request without credentials ends with 401 before the item
  is looked up, also when the item is public and not deleted.
\<close>

theorem anonymous_denied_for_public_item:
  "item_visibility (sample_item VisibilityType_public None) = VisibilityType_public
   \<and> item_deleted_at (sample_item VisibilityType_public None) = None
   \<and> library_item_get (sample_env False None (sample_item VisibilityType_public None)) ''item-7''
       = Inr (Some (sample_item VisibilityType_public None))
   \<and> get_download (sample_env False None (sample_item VisibilityType_public None)) ''item-7'' None
       = (Inl (HTTPException 401 CredentialsInvalid), [])"
  by code_simp

lemma get_download_anonymous:
  "get_download e iid None = (Inl (HTTPException 401 CredentialsInvalid), [])"
  by (simp add: get_download_def get_current_user_def credentials_exception_def)

lemma generate_download_url_owner:
  assumes "library_item_get e iid = Inr (Some item)"
    and "u_id u = item_user_profile_id item"
  shows "(\<exists>r calls. generate_download_url e iid u = (Inr r, calls))
         \<or> (\<exists>calls. calls \<noteq> []
               \<and> generate_download_url e iid u = (Inl (HTTPException 500 DownloadUrlError), calls))"
proof -
  let ?svc = "s3_service e"
  consider (ok) url calls where "generate_presigned_download_url ?svc (item_s3_key item) 3600 = (Inr url, calls)"
    | (bad) err calls where "calls \<noteq> []"
        "generate_presigned_download_url ?svc (item_s3_key item) 3600 = (Inl err, calls)"
    using generate_presigned_download_url_cases [of ?svc "item_s3_key item" 3600] by blast
  then show ?thesis
  proof cases
    case bad
    with assms show ?thesis by (simp add: generate_download_url_def)
  next
    case ok
    show ?thesis
    proof (cases "item_s3_thumbnail_key item")
      case None
      with ok assms show ?thesis by (simp add: generate_download_url_def)
    next
      case (Some k)
      show ?thesis
      proof (cases "k = []")
        case True
        with Some ok assms show ?thesis by (simp add: generate_download_url_def)
      next
        case False
        consider (ok2) url2 calls2 where "generate_presigned_download_url ?svc k 3600 = (Inr url2, calls2)"
          | (bad2) err2 calls2 where "calls2 \<noteq> []"
              "generate_presigned_download_url ?svc k 3600 = (Inl err2, calls2)"
          using generate_presigned_download_url_cases [of ?svc k 3600] by blast
        then show ?thesis
        proof cases
          case ok2
          with False Some ok assms show ?thesis by (simp add: generate_download_url_def)
        next
          case bad2
          with False Some ok assms show ?thesis by (simp add: generate_download_url_def)
        qed
      qed
    qed
  qed
qed

text \<open>
  C2, amended. For every item with visibility public and \<open>deleted_at\<close> unset that the
  directory returns: a request without credentials is refused with 401 and no provider call;
  a request whose credentials resolve to the item's owner is authorized, that is, it returns
  the download credential, or status 500 after a provider call that failed. Nothing is said
  here about authenticated callers who are not the owner.
\<close>

theorem public_item_download:
  assumes "library_item_get e iid = Inr (Some item)"
    and "item_visibility item = VisibilityType_public"
    and "item_deleted_at item = None"
  shows "get_download e iid None = (Inl (HTTPException 401 CredentialsInvalid), [])
         \<and> (\<forall>token u. get_current_user e (Some token) = Inr u \<and> u_id u = item_user_profile_id item
               \<longrightarrow> (\<exists>r calls. get_download e iid (Some token) = (Inr r, calls))
                   \<or> (\<exists>calls. calls \<noteq> []
                         \<and> get_download e iid (Some token)
                             = (Inl (HTTPException 500 DownloadUrlError), calls)))"
proof (intro conjI allI impI)
  show "get_download e iid None = (Inl (HTTPException 401 CredentialsInvalid), [])"
    by (rule get_download_anonymous)
next
  fix token u
  assume a: "get_current_user e (Some token) = Inr u \<and> u_id u = item_user_profile_id item"
  then have "get_download e iid (Some token) = generate_download_url e iid u"
    by (simp add: get_download_def get_current_active_user_def)
  then show "(\<exists>r calls. get_download e iid (Some token) = (Inr r, calls))
      \<or> (\<exists>calls. calls \<noteq> []
            \<and> get_download e iid (Some token) = (Inl (HTTPException 500 DownloadUrlError), calls))"
    using generate_download_url_owner [OF assms(1), of u] a by simp
qed

theorem public_item_download_witness:
  "library_item_get (sample_env False None (sample_item VisibilityType_public None)) ''item-7''
     = Inr (Some (sample_item VisibilityType_public None))
   \<and> item_visibility (sample_item VisibilityType_public None) = VisibilityType_public
   \<and> item_deleted_at (sample_item VisibilityType_public None) = None
   \<and> get_current_user (sample_env False None (sample_item VisibilityType_public None))
         (Some ''alice-token'') = Inr alice
   \<and> u_id alice = item_user_profile_id (sample_item VisibilityType_public None)
   \<and> get_download (sample_env False None (sample_item VisibilityType_public None)) ''item-7'' None
       = (Inl (HTTPException 401 CredentialsInvalid), [])
   \<and> ((\<exists>r calls. get_download (sample_env False None (sample_item VisibilityType_public None))
                     ''item-7'' (Some ''alice-token'') = (Inr r, calls))
       \<or> (\<exists>calls. calls \<noteq> []
             \<and> get_download (sample_env False None (sample_item VisibilityType_public None))
                  ''item-7'' (Some ''alice-token'')
                 = (Inl (HTTPException 500 DownloadUrlError), calls)))"
proof -
  let ?I = "sample_item VisibilityType_public None"
  let ?E = "sample_env False None ?I"
  have h1: "library_item_get ?E ''item-7'' = Inr (Some ?I)" by code_simp
  have h2: "item_visibility ?I = VisibilityType_public" by code_simp
  have h3: "item_deleted_at ?I = None" by code_simp
  have a: "get_current_user ?E (Some ''alice-token'') = Inr alice
           \<and> u_id alice = item_user_profile_id ?I" by code_simp
  from public_item_download [OF h1 h2 h3] a h1 h2 h3 show ?thesis by blast
qed

text \<open>
  The comparison \<open>item.visibility == "public"\<close> in the handler has an enumeration member on
  its left and a string on its right, so \<open>is_public\<close> is false for every item, and an
  authenticated caller who is not the owner gets 403 for a public item as well.
\<close>

lemma py_eq_enum_str: "py_eq (EnumMember v) (Str s) = False"
  by (simp add: py_eq_def)

lemma public_item_forbidden_to_non_owner:
  "get_download (sample_env False None (sample_item VisibilityType_public None)) ''item-7''
     (Some ''bob-token'')
   = (Inl (HTTPException 403 AccessDenied), [])"
  by code_simp

section \<open>The upload endpoint: the claims\<close>

text \<open>
  C7. For every environment, request and caller: when the validator rejects the request
  (\<open>valid = False\<close>), the handler answers 400 with the validator's message and the provider
  trace is empty; and whenever the trace is not empty, so that a provider error is possible
  at all, the validator had accepted the request, the caller was known or \<open>DEBUG\<close> was set,
  and the service has a client.
\<close>

theorem invalid_upload_request_never_reaches_provider:
  "(\<forall>msg info. validate_upload_request e (req_filename request) (req_content_type request)
                  (req_file_size request) = Inr (False, msg, info)
        \<longrightarrow> generate_real_presigned_url e request current_user
            = (Inl (HTTPException 400 (ErrorMsg msg)), []))
   \<and> (snd (generate_real_presigned_url e request current_user) \<noteq> []
        \<longrightarrow> (\<exists>msg info. validate_upload_request e (req_filename request)
                           (req_content_type request) (req_file_size request)
                         = Inr (True, msg, info))
            \<and> (current_user \<noteq> None \<or> DEBUG e)
            \<and> s3_client (s3_service e) \<noteq> None)"
proof (intro conjI allI impI)
  fix msg info
  assume "validate_upload_request e (req_filename request) (req_content_type request)
            (req_file_size request) = Inr (False, msg, info)"
  then show "generate_real_presigned_url e request current_user
      = (Inl (HTTPException 400 (ErrorMsg msg)), [])"
    by (simp add: generate_real_presigned_url_def)
next
  assume t: "snd (generate_real_presigned_url e request current_user) \<noteq> []"
  then show "\<exists>msg info. validate_upload_request e (req_filename request)
       (req_content_type request) (req_file_size request) = Inr (True, msg, info)"
    by (auto simp: generate_real_presigned_url_def split: sum.splits prod.splits if_splits)
  from t show "current_user \<noteq> None \<or> DEBUG e"
    by (auto simp: generate_real_presigned_url_def
        split: sum.splits prod.splits if_splits option.splits)
  from t show "s3_client (s3_service e) \<noteq> None"
    by (auto simp: generate_real_presigned_url_def
        split: sum.splits prod.splits if_splits option.splits
        dest: generate_presigned_upload_url_trace)
qed

theorem invalid_upload_request_never_reaches_provider_witness:
  "validate_upload_request (sample_env False (Some placeholder_client)
       (sample_item VisibilityType_public None))
     (req_filename empty_request) (req_content_type empty_request) (req_file_size empty_request)
     = Inr (False, ''invalid upload request'', ())
   \<and> generate_real_presigned_url (sample_env False (Some placeholder_client)
         (sample_item VisibilityType_public None)) empty_request (Some alice)
       = (Inl (HTTPException 400 (ErrorMsg ''invalid upload request'')), [])
   \<and> snd (generate_real_presigned_url (sample_env False (Some placeholder_client)
         (sample_item VisibilityType_public None)) good_request (Some alice)) \<noteq> []
   \<and> (\<exists>msg info. validate_upload_request (sample_env False (Some placeholder_client)
                       (sample_item VisibilityType_public None))
                     (req_filename good_request) (req_content_type good_request)
                     (req_file_size good_request) = Inr (True, msg, info))"
proof -
  let ?E = "sample_env False (Some placeholder_client) (sample_item VisibilityType_public None)"
  have h1: "validate_upload_request ?E (req_filename empty_request)
      (req_content_type empty_request) (req_file_size empty_request)
      = Inr (False, ''invalid upload request'', ())"
    by code_simp
  have h2: "snd (generate_real_presigned_url ?E good_request (Some alice)) \<noteq> []"
    by code_simp
  from invalid_upload_request_never_reaches_provider [of ?E empty_request "Some alice"] h1
  have a: "generate_real_presigned_url ?E empty_request (Some alice)
       = (Inl (HTTPException 400 (ErrorMsg ''invalid upload request'')), [])"
    by blast
  from invalid_upload_request_never_reaches_provider [of ?E good_request "Some alice"] h2
  have b: "\<exists>msg info. validate_upload_request ?E (req_filename good_request)
      (req_content_type good_request) (req_file_size good_request) = Inr (True, msg, info)"
    by blast
  from h1 a h2 b show ?thesis by blast
qed

text \<open>
  C8, as stated, fails when the request is invalid: validation runs before the identity
  check, so a request without identity that the validator rejects gets 400, not 401, with
  \<open>DEBUG\<close> unset, and does not proceed with \<open>DEBUG\<close> set.
\<close>

theorem invalid_anonymous_request_gets_400:
  "DEBUG (sample_env False None (sample_item VisibilityType_public None)) = False
   \<and> generate_real_presigned_url (sample_env False None (sample_item VisibilityType_public None))
       empty_request None
     = (Inl (HTTPException 400 (ErrorMsg ''invalid upload request'')), [])
   \<and> DEBUG (sample_env True None (sample_item VisibilityType_public None)) = True
   \<and> generate_real_presigned_url (sample_env True None (sample_item VisibilityType_public None))
       empty_request None
     = (Inl (HTTPException 400 (ErrorMsg ''invalid upload request'')), [])"
  by code_simp

text \<open>
  C8, amended. When the caller identity is absent and the validator has accepted the
  request: with \<open>DEBUG\<close> unset the handler answers 401 and the provider trace is empty (the
  answer depends on neither clock nor token: no key is derived); with \<open>DEBUG\<close> set the
  handler proceeds exactly as the storage service does for the owner id \<open>test-user\<close>, and a
  returned key is the key derived for \<open>test-user\<close>.
\<close>

theorem anonymous_valid_upload_request:
  assumes "validate_upload_request e (req_filename request) (req_content_type request)
             (req_file_size request) = Inr (True, msg, info)"
  shows "(\<not> DEBUG e \<longrightarrow>
            generate_real_presigned_url e request None
              = (Inl (HTTPException 401 LoginRequired), []))
         \<and> (DEBUG e \<longrightarrow>
              generate_real_presigned_url e request None
                = (case generate_presigned_upload_url (s3_service e) (utcnow e) (uuid4_draw e)
                          (req_filename request) (req_content_type request) ''test-user'' 3600 of
                     (Inl err, calls) \<Rightarrow> (Inl (HTTPException 500 UploadUrlError), calls)
                   | (Inr upload_info, calls) \<Rightarrow>
                       (Inr \<lparr>resp_upload_url = info_upload_url upload_info,
                             resp_s3_key = info_s3_key upload_info,
                             resp_expires_in = info_expires_in upload_info,
                             resp_fields = info_fields upload_info,
                             resp_file_info = info\<rparr>, calls))
              \<and> (\<forall>r calls. generate_real_presigned_url e request None = (Inr r, calls)
                    \<longrightarrow> resp_s3_key r
                        = generate_s3_key (utcnow e) (uuid4_draw e) (req_filename request)
                            ''test-user''))"
proof (intro conjI impI allI)
  assume "\<not> DEBUG e"
  with assms show "generate_real_presigned_url e request None
      = (Inl (HTTPException 401 LoginRequired), [])"
    by (simp add: generate_real_presigned_url_def)
next
  assume "DEBUG e"
  with assms show "generate_real_presigned_url e request None
      = (case generate_presigned_upload_url (s3_service e) (utcnow e) (uuid4_draw e)
                (req_filename request) (req_content_type request) ''test-user'' 3600 of
           (Inl err, calls) \<Rightarrow> (Inl (HTTPException 500 UploadUrlError), calls)
         | (Inr upload_info, calls) \<Rightarrow>
             (Inr \<lparr>resp_upload_url = info_upload_url upload_info,
                   resp_s3_key = info_s3_key upload_info,
                   resp_expires_in = info_expires_in upload_info,
                   resp_fields = info_fields upload_info,
                   resp_file_info = info\<rparr>, calls))"
    by (simp add: generate_real_presigned_url_def)
next
  fix r calls
  assume "DEBUG e" and "generate_real_presigned_url e request None = (Inr r, calls)"
  with assms show "resp_s3_key r
      = generate_s3_key (utcnow e) (uuid4_draw e) (req_filename request) ''test-user''"
    by (auto simp: generate_real_presigned_url_def split: prod.splits sum.splits
        dest: generate_presigned_upload_url_key)
qed

theorem anonymous_valid_upload_request_witness:
  "validate_upload_request (sample_env False None (sample_item VisibilityType_public None))
     (req_filename good_request) (req_content_type good_request) (req_file_size good_request)
     = Inr (True, ''invalid upload request'', ())
   \<and> \<not> DEBUG (sample_env False None (sample_item VisibilityType_public None))
   \<and> generate_real_presigned_url (sample_env False None (sample_item VisibilityType_public None))
         good_request None
       = (Inl (HTTPException 401 LoginRequired), [])
   \<and> DEBUG (sample_env True None (sample_item VisibilityType_public None))
   \<and> generate_real_presigned_url (sample_env True None (sample_item VisibilityType_public None))
         good_request None
       = (Inr \<lparr>resp_upload_url = ''https://bucket.s3.amazonaws.com/uploads/2024/12/test-user/00000000-0000-0000-0000-000000000000.txt?mock=true'',
               resp_s3_key = ''uploads/2024/12/test-user/00000000-0000-0000-0000-000000000000.txt'',
               resp_expires_in = 3600,
               resp_fields = [],
               resp_file_info = ()\<rparr>, [])
   \<and> generate_s3_key (utcnow (sample_env True None (sample_item VisibilityType_public None)))
         (uuid4_draw (sample_env True None (sample_item VisibilityType_public None)))
         (req_filename good_request) ''test-user''
       = ''uploads/2024/12/test-user/00000000-0000-0000-0000-000000000000.txt''"
proof -
  let ?I = "sample_item VisibilityType_public None"
  let ?E0 = "sample_env False None ?I"
  let ?E1 = "sample_env True None ?I"
  let ?R = "\<lparr>resp_upload_url = ''https://bucket.s3.amazonaws.com/uploads/2024/12/test-user/00000000-0000-0000-0000-000000000000.txt?mock=true'',
               resp_s3_key = ''uploads/2024/12/test-user/00000000-0000-0000-0000-000000000000.txt'',
               resp_expires_in = 3600,
               resp_fields = [],
               resp_file_info = ()\<rparr>"
  have v0: "validate_upload_request ?E0 (req_filename good_request) (req_content_type good_request)
      (req_file_size good_request) = Inr (True, ''invalid upload request'', ())"
    by code_simp
  have v1: "validate_upload_request ?E1 (req_filename good_request) (req_content_type good_request)
      (req_file_size good_request) = Inr (True, ''invalid upload request'', ())"
    by code_simp
  have d0: "\<not> DEBUG ?E0" by code_simp
  have d1: "DEBUG ?E1" by code_simp
  have r1: "generate_real_presigned_url ?E1 good_request None = (Inr ?R, [])" by code_simp
  from anonymous_valid_upload_request [OF v0] d0
  have a: "generate_real_presigned_url ?E0 good_request None
      = (Inl (HTTPException 401 LoginRequired), [])"
    by blast
  from anonymous_valid_upload_request [OF v1] d1 r1
  have "resp_s3_key ?R
      = generate_s3_key (utcnow ?E1) (uuid4_draw ?E1) (req_filename good_request) ''test-user''"
    by blast
  then have b: "generate_s3_key (utcnow ?E1) (uuid4_draw ?E1) (req_filename good_request) ''test-user''
      = ''uploads/2024/12/test-user/00000000-0000-0000-0000-000000000000.txt''"
    by simp
  from v0 d0 a d1 r1 b show ?thesis by blast
qed

text \<open>
  C9. For every request with a bearer token that does not resolve to a user, because
  \<open>jwt.decode\<close> raises (malformed, wrongly signed, expired), or the payload has no \<open>sub\<close> or
  an empty one, or the user lookup finds nobody or raises, \<open>get_current_user_optional\<close>
  returns \<open>None\<close> and the upload route answers exactly as it does without credentials.
\<close>

theorem invalid_token_is_anonymous:
  assumes "(\<exists>err. jwt_decode e token = Inl err)
           \<or> (\<exists>payload. jwt_decode e token = Inr payload
                 \<and> (payload ''sub'' = None \<or> payload ''sub'' = Some []))
           \<or> (\<exists>payload sub. jwt_decode e token = Inr payload \<and> payload ''sub'' = Some sub
                 \<and> (get_by_username e sub = Inr None \<or> (\<exists>err. get_by_username e sub = Inl err)))"
  shows "get_current_user_optional e (Some token) = None
         \<and> post_presigned_url e request (Some token) = post_presigned_url e request None"
proof -
  have n: "get_current_user_optional e (Some token) = None"
    using assms by (auto simp: get_current_user_optional_def)
  have "get_current_user_optional e None = None"
    by (simp add: get_current_user_optional_def)
  with n show ?thesis by (simp add: post_presigned_url_def)
qed

theorem invalid_token_is_anonymous_witness:
  "(\<exists>err. jwt_decode (sample_env True None (sample_item VisibilityType_public None)) ''garbage''
           = Inl err)
   \<and> post_presigned_url (sample_env True None (sample_item VisibilityType_public None))
         good_request (Some ''garbage'')
       = post_presigned_url (sample_env True None (sample_item VisibilityType_public None))
           good_request None
   \<and> (\<exists>payload. jwt_decode (sample_env True None (sample_item VisibilityType_public None))
                    ''nosub-token'' = Inr payload \<and> payload ''sub'' = None)
   \<and> get_current_user_optional (sample_env True None (sample_item VisibilityType_public None))
         (Some ''nosub-token'') = None
   \<and> (\<exists>payload sub. jwt_decode (sample_env True None (sample_item VisibilityType_public None))
                        ''ghost-token'' = Inr payload \<and> payload ''sub'' = Some sub
                      \<and> get_by_username (sample_env True None
                            (sample_item VisibilityType_public None)) sub = Inr None)
   \<and> get_current_user_optional (sample_env True None (sample_item VisibilityType_public None))
         (Some ''ghost-token'') = None"
proof -
  let ?E = "sample_env True None (sample_item VisibilityType_public None)"
  have h1: "\<exists>err. jwt_decode ?E ''garbage'' = Inl err"
    by (simp add: sample_env_def)
  have h2: "\<exists>payload. jwt_decode ?E ''nosub-token'' = Inr payload \<and> payload ''sub'' = None"
    by (simp add: sample_env_def)
  have h3: "\<exists>payload sub. jwt_decode ?E ''ghost-token'' = Inr payload \<and> payload ''sub'' = Some sub
      \<and> get_by_username ?E sub = Inr None"
    by (simp add: sample_env_def)
  from invalid_token_is_anonymous [of ?E "''garbage''" good_request] h1
  have a: "post_presigned_url ?E good_request (Some ''garbage'')
      = post_presigned_url ?E good_request None"
    by blast
  from invalid_token_is_anonymous [of ?E "''nosub-token''" good_request] h2
  have b: "get_current_user_optional ?E (Some ''nosub-token'') = None"
    by blast
  from invalid_token_is_anonymous [of ?E "''ghost-token''" good_request] h3
  have c: "get_current_user_optional ?E (Some ''ghost-token'') = None"
    by blast
  from h1 a h2 b h3 c show ?thesis by blast
qed

end
